theory Spec2Isabelle
  imports Complex_Main
begin

section \<open>Data model\<close>

text \<open>
  One row of the CSV file, with the columns that \<^verbatim>\<open>dashboard.py\<close> names. \<^verbatim>\<open>Age\<close> is an
  integer column; the scales and the screen time are numeric columns whose means pandas
  computes as floats. Floats are modelled by the reals together with one extra value for
  not-a-number (type \<open>pyfloat\<close> below). The means are taken over the reals; the
  correlation matrix, whose range depends on it, rounds after every operation.
\<close>

record row =
  Age :: int
  Gender :: string
  Social_Media_Platform :: string
  Daily_Screen_Time :: real
  Sleep_Quality :: real
  Stress_Level :: real
  Happiness_Index :: real
  Exercise_Frequency :: real

text \<open>
  A row of the loaded table: the CSV row plus the derived categorical column
  \<^verbatim>\<open>Age_Range\<close>. A missing category (pandas shows it as NaN) is \<open>None\<close>.
\<close>

record lrow = row +
  Age_Range :: "string option"

datatype pyfloat = NaN | Fin real

fun fsub :: "pyfloat \<Rightarrow> pyfloat \<Rightarrow> pyfloat" where
  "fsub (Fin a) (Fin b) = Fin (a - b)"
| "fsub _ _ = NaN"

text \<open>\<^verbatim>\<open>Series.mean()\<close>: the mean of an empty column is NaN, nothing is raised.\<close>

definition mean :: "real list \<Rightarrow> pyfloat" where
  "mean xs = (if xs = [] then NaN else Fin (sum_list xs / real (length xs)))"

section \<open>Age buckets: \<^verbatim>\<open>pd.cut\<close> as \<^verbatim>\<open>load_data\<close> calls it\<close>

definition bins :: "int list" where
  "bins = [10, 20, 25, 30, 35, 40, 50, 100]"

definition labels :: "string list" where
  "labels = [''15-20'', ''21-25'', ''26-30'', ''31-35'', ''36-40'', ''41-50'', ''50+'']"

text \<open>
  \<^verbatim>\<open>bins.searchsorted(x, side="left")\<close> on a sorted array: the number of edges strictly
  below \<open>x\<close>.
\<close>

fun searchsorted_left :: "int list \<Rightarrow> int \<Rightarrow> nat" where
  "searchsorted_left [] x = 0"
| "searchsorted_left (b # bs) x = (if b < x then Suc (searchsorted_left bs x) else 0)"

text \<open>
  \<^verbatim>\<open>pd.cut(x, bins=bs, labels=ls, include_lowest=True)\<close> with the default
  \<^verbatim>\<open>right=True\<close>, for one value: the index found by the search, moved to the first bin
  when the value is the lowest edge, and no label when it falls outside all bins.
\<close>

definition cut :: "int list \<Rightarrow> string list \<Rightarrow> int \<Rightarrow> string option" where
  "cut bs ls x =
     (let ids = searchsorted_left bs x;
          ids = (if bs \<noteq> [] \<and> x = hd bs then 1 else ids)
      in if ids = length bs \<or> ids = 0 then None else Some (ls ! (ids - 1)))"

definition age_range :: "int \<Rightarrow> string option" where
  "age_range a = cut bins labels a"

definition add_age_range :: "row \<Rightarrow> lrow" where
  "add_age_range r =
     \<lparr>Age = Age r, Gender = Gender r, Social_Media_Platform = Social_Media_Platform r,
      Daily_Screen_Time = Daily_Screen_Time r, Sleep_Quality = Sleep_Quality r,
      Stress_Level = Stress_Level r, Happiness_Index = Happiness_Index r,
      Exercise_Frequency = Exercise_Frequency r, Age_Range = age_range (Age r)\<rparr>"

section \<open>What the page shows\<close>

text \<open>
  The script renders top to bottom; a run is the list of the elements it has shown.
  Titles are kept without their emoji. A metric card holds the two numbers that the
  script formats with \<^verbatim>\<open>:.2f\<close>. The widget and plotting calls are taken to succeed; a
  chart is named by its title, except the radar chart and the heatmap, whose data are kept.
\<close>

datatype chart =
    Figure string
  | Radar "(string \<times> pyfloat list \<times> string list) list"
  | Heatmap "pyfloat list list"

datatype ui =
    Title string
  | Markdown
  | Error string
  | SidebarHeader string
  | Multiselect string "string option list" "string option list"
  | Header string
  | Metric string pyfloat pyfloat
  | PlotlyChart chart
  | Dataframe

section \<open>\<^verbatim>\<open>load_data\<close>\<close>

text \<open>
  What \<^verbatim>\<open>pd.read_csv\<close> can do: raise \<^verbatim>\<open>FileNotFoundError\<close>, raise another
  exception (kept with its \<^verbatim>\<open>str(e)\<close>), or return the rows.
\<close>

datatype exn = FileNotFoundError | OtherException string

definition file_not_found_msg :: string where
  "file_not_found_msg =
     ''Error: The data file 'Mental_Health_and_Social_Media_Balance_Dataset.csv' was not found. Please make sure it's in the same directory as the dashboard.''"

text \<open>
  The type that \<^verbatim>\<open>read_csv\<close> gives the \<^verbatim>\<open>Age\<close> column of a file of integers: 64-bit
  signed when every value fits, 64-bit unsigned when that fails and every value fits
  there, and otherwise a column of strings.
\<close>

datatype dtype = Int64 | UInt64 | Object

definition fits_int64 :: "int \<Rightarrow> bool" where
  "fits_int64 a = (- (2 ^ 63) \<le> a \<and> a < 2 ^ 63)"

definition fits_uint64 :: "int \<Rightarrow> bool" where
  "fits_uint64 a = (0 \<le> a \<and> a < 2 ^ 64)"

definition age_dtype :: "int list \<Rightarrow> dtype" where
  "age_dtype ages =
     (if list_all fits_int64 ages then Int64
      else if list_all fits_uint64 ages then UInt64
      else Object)"

text \<open>
  On a column of strings \<^verbatim>\<open>pd.cut\<close> raises a \<^verbatim>\<open>TypeError\<close> when it compares an
  edge with a value; this is its message.
\<close>

definition cut_type_error :: string where
  "cut_type_error =
     [CHR 0x27] @ ''<'' @ [CHR 0x27] @
     '' not supported between instances of 'int' and 'str'' @ [CHR 0x27]"

text \<open>
  \<^verbatim>\<open>load_data\<close> returns the table or \<^verbatim>\<open>None\<close>; the errors it shows with
  \<^verbatim>\<open>st.error\<close> are the first component. The call of \<^verbatim>\<open>pd.cut\<close> is inside the
  \<^verbatim>\<open>try\<close>, so its exception is shown like one of \<^verbatim>\<open>read_csv\<close>.
\<close>

definition load_data :: "exn + row list \<Rightarrow> ui list \<times> lrow list option" where
  "load_data csv =
     (case csv of
        Inr raw \<Rightarrow>
          (if age_dtype (map Age raw) = Object
           then ([Error (''Error loading data: '' @ cut_type_error)], None)
           else ([], Some (map add_age_range raw)))
      | Inl FileNotFoundError \<Rightarrow> ([Error file_not_found_msg], None)
      | Inl (OtherException e) \<Rightarrow> ([Error (''Error loading data: '' @ e)], None))"

section \<open>Filters\<close>

text \<open>
  \<^verbatim>\<open>Series.unique()\<close>: the distinct values in order of first appearance; a missing
  category is one of them.
\<close>

fun unique :: "'a list \<Rightarrow> 'a list" where
  "unique [] = []"
| "unique (x # xs) = x # unique (filter (\<lambda>y. y \<noteq> x) xs)"

text \<open>\<^verbatim>\<open>Series.isin(values)\<close>, row by row; a missing category matches a missing value.\<close>

definition isin :: "'a \<Rightarrow> 'a list \<Rightarrow> bool" where
  "isin x vs = (x \<in> set vs)"

text \<open>The three multiselect widgets: what the user has selected in each.\<close>

record session =
  selected_platform :: "string list"
  selected_age_range :: "string option list"
  selected_gender :: "string list"

definition default_session :: "lrow list \<Rightarrow> session" where
  "default_session df =
     \<lparr>selected_platform = unique (map Social_Media_Platform df),
      selected_age_range = unique (map Age_Range df),
      selected_gender = unique (map Gender df)\<rparr>"

definition filtered_df :: "lrow list \<Rightarrow> session \<Rightarrow> lrow list" where
  "filtered_df df s =
     filter (\<lambda>r. isin (Social_Media_Platform r) (selected_platform s) \<and>
                 isin (Age_Range r) (selected_age_range s) \<and>
                 isin (Gender r) (selected_gender s)) df"

definition sidebar :: "lrow list \<Rightarrow> ui list" where
  "sidebar df =
     [SidebarHeader ''Filters'',
      Multiselect ''Social Media Platform''
        (map Some (unique (map Social_Media_Platform df)))
        (map Some (unique (map Social_Media_Platform df))),
      Multiselect ''Age Range'' (unique (map Age_Range df)) (unique (map Age_Range df)),
      Multiselect ''Gender''
        (map Some (unique (map Gender df))) (map Some (unique (map Gender df)))]"

section \<open>Key metrics\<close>

definition happiness_delta :: "lrow list \<Rightarrow> lrow list \<Rightarrow> pyfloat" where
  "happiness_delta df fdf =
     fsub (mean (map Happiness_Index fdf)) (mean (map Happiness_Index df))"

definition stress_delta :: "lrow list \<Rightarrow> lrow list \<Rightarrow> pyfloat" where
  "stress_delta df fdf =
     fsub (mean (map Stress_Level df)) (mean (map Stress_Level fdf))"

definition screen_time_delta :: "lrow list \<Rightarrow> lrow list \<Rightarrow> pyfloat" where
  "screen_time_delta df fdf =
     fsub (mean (map Daily_Screen_Time fdf)) (mean (map Daily_Screen_Time df))"

definition exercise_delta :: "lrow list \<Rightarrow> lrow list \<Rightarrow> pyfloat" where
  "exercise_delta df fdf =
     fsub (mean (map Exercise_Frequency fdf)) (mean (map Exercise_Frequency df))"

definition metrics :: "lrow list \<Rightarrow> lrow list \<Rightarrow> ui list" where
  "metrics df fdf =
     [Metric ''Average Happiness'' (mean (map Happiness_Index fdf)) (happiness_delta df fdf),
      Metric ''Average Stress Level'' (mean (map Stress_Level fdf)) (stress_delta df fdf),
      Metric ''Avg Screen Time (hrs)'' (mean (map Daily_Screen_Time fdf))
        (screen_time_delta df fdf),
      Metric ''Avg Exercise (weekly)'' (mean (map Exercise_Frequency fdf))
        (exercise_delta df fdf)]"

section \<open>Radar chart\<close>

definition categories :: "(string \<times> (lrow \<Rightarrow> real)) list" where
  "categories =
     [(''Sleep_Quality(1-10)'', Sleep_Quality), (''Stress_Level(1-10)'', Stress_Level),
      (''Happiness_Index(1-10)'', Happiness_Index),
      (''Exercise_Frequency(week)'', Exercise_Frequency)]"

text \<open>
  One pass of the loop over \<^verbatim>\<open>selected_platform\<close>: the column means of the rows of
  the platform, then \<^verbatim>\<open>values += values[:1]\<close>.
\<close>

definition radar_values :: "lrow list \<Rightarrow> string \<Rightarrow> pyfloat list" where
  "radar_values fdf platform =
     (let platform_data = filter (\<lambda>r. Social_Media_Platform r = platform) fdf;
          values = map (\<lambda>(name, col). mean (map col platform_data)) categories
      in values @ take 1 values)"

definition radar_trace :: "lrow list \<Rightarrow> string \<Rightarrow> string \<times> pyfloat list \<times> string list" where
  "radar_trace fdf platform =
     (platform, radar_values fdf platform, map fst categories @ [fst (hd categories)])"

definition fig_radar :: "lrow list \<Rightarrow> session \<Rightarrow> chart" where
  "fig_radar fdf s = Radar (map (radar_trace fdf) (selected_platform s))"

section \<open>Correlation heatmap\<close>

text \<open>
  The columns that \<^verbatim>\<open>select_dtypes(include=[np.number])\<close> keeps. In a table with rows
  these are all but the two string columns and the categorical \<^verbatim>\<open>Age_Range\<close>; a
  file with a header and no rows gives every column the type of strings, so none is
  kept. The view has the column types of the table it is taken from.
\<close>

definition numeric_cols :: "lrow list \<Rightarrow> (string \<times> (lrow \<Rightarrow> real)) list" where
  "numeric_cols df =
     (if df = [] then []
      else [(''Age'', \<lambda>r. real_of_int (Age r)),
            (''Daily_Screen_Time(hrs)'', Daily_Screen_Time),
            (''Sleep_Quality(1-10)'', Sleep_Quality), (''Stress_Level(1-10)'', Stress_Level),
            (''Happiness_Index(1-10)'', Happiness_Index),
            (''Exercise_Frequency(week)'', Exercise_Frequency)])"

text \<open>
  Double precision: every operation of the correlation loop gives the exact result
  rounded to the nearest double, ties to the even one. A double near \<open>x\<close> is a multiple
  of the power of two 52 places below the leading bit of \<open>x\<close> (and not below the
  smallest such power). Values too large for a double are not modelled.
\<close>

definition round_half_even :: "real \<Rightarrow> int" where
  "round_half_even y =
     (let f = \<lfloor>y\<rfloor>
      in if y - of_int f < 1 / 2 then f
         else if 1 / 2 < y - of_int f then f + 1
         else if even f then f else f + 1)"

definition quantum :: "real \<Rightarrow> real" where
  "quantum x = 2 powr of_int (max \<lfloor>log 2 \<bar>x\<bar>\<rfloor> (- 1022) - 52)"

definition float64 :: "real \<Rightarrow> real" where
  "float64 x = (if x = 0 then 0 else of_int (round_half_even (x / quantum x)) * quantum x)"

definition min_periods :: nat where
  "min_periods = 1"

text \<open>
  \<^verbatim>\<open>DataFrame.corr()\<close> (Pearson, \<^verbatim>\<open>min_periods=1\<close>) runs one loop over the rows for
  each pair of columns. The loop keeps the number of rows seen, the two running means,
  the two running sums of squared deviations and the running sum of products of
  deviations; \<open>rnd\<close> is the rounding of the arithmetic.
\<close>

record welford =
  nobs :: nat
  meanx :: real
  meany :: real
  ssqdmx :: real
  ssqdmy :: real
  covxy :: real

definition welford_init :: welford where
  "welford_init = \<lparr>nobs = 0, meanx = 0, meany = 0, ssqdmx = 0, ssqdmy = 0, covxy = 0\<rparr>"

definition welford_step :: "(real \<Rightarrow> real) \<Rightarrow> welford \<Rightarrow> real \<Rightarrow> real \<Rightarrow> welford" where
  "welford_step rnd w vx vy =
     (let n = nobs w + 1;
          dx = rnd (vx - meanx w);
          dy = rnd (vy - meany w);
          mx = rnd (meanx w + rnd (rnd (1 / real n) * dx));
          my = rnd (meany w + rnd (rnd (1 / real n) * dy))
      in \<lparr>nobs = n, meanx = mx, meany = my,
          ssqdmx = rnd (ssqdmx w + rnd (rnd (vx - mx) * dx)),
          ssqdmy = rnd (ssqdmy w + rnd (rnd (vy - my) * dy)),
          covxy = rnd (covxy w + rnd (rnd (vx - mx) * dy))\<rparr>)"

definition welford_loop ::
  "(real \<Rightarrow> real) \<Rightarrow> 'a list \<Rightarrow> ('a \<Rightarrow> real) \<Rightarrow> ('a \<Rightarrow> real) \<Rightarrow> welford" where
  "welford_loop rnd rs f g = foldl (\<lambda>w r. welford_step rnd w (f r) (g r)) welford_init rs"

text \<open>
  After the loop: not a number when fewer than \<^verbatim>\<open>min_periods\<close> rows were seen or the
  divisor is zero, and otherwise the sum of products over the divisor.
\<close>

definition nancorr ::
  "(real \<Rightarrow> real) \<Rightarrow> 'a list \<Rightarrow> ('a \<Rightarrow> real) \<Rightarrow> ('a \<Rightarrow> real) \<Rightarrow> pyfloat" where
  "nancorr rnd rs f g =
     (let w = welford_loop rnd rs f g
      in if nobs w < min_periods then NaN
         else let divisor = rnd (sqrt (rnd (ssqdmx w * ssqdmy w)))
              in if divisor \<noteq> 0 then Fin (rnd (covxy w / divisor)) else NaN)"

text \<open>
  The matrix: the loop runs for each column \<open>xi\<close> and each column \<open>yi\<close> up to \<open>xi\<close>,
  and its result is stored at \<open>(xi, yi)\<close> and at \<open>(yi, xi)\<close>.
\<close>

definition corr ::
  "(real \<Rightarrow> real) \<Rightarrow> (string \<times> ('a \<Rightarrow> real)) list \<Rightarrow> 'a list \<Rightarrow> pyfloat list list" where
  "corr rnd cols fdf =
     map (\<lambda>i. map (\<lambda>j. nancorr rnd fdf (snd (cols ! max i j)) (snd (cols ! min i j)))
                 [0..<length cols])
         [0..<length cols]"


section \<open>The whole script\<close>

definition preamble :: "ui list" where
  "preamble = [Markdown, Title ''Social Media & Mental Health Dashboard'', Markdown]"

definition charts :: "lrow list \<Rightarrow> lrow list \<Rightarrow> session \<Rightarrow> ui list" where
  "charts df fdf s =
     [PlotlyChart (Figure ''Social Media Platform Distribution''),
      PlotlyChart (Figure ''Screen Time Distribution by Platform''),
      PlotlyChart (Figure ''Happiness Index vs Screen Time''),
      PlotlyChart (fig_radar fdf s),
      PlotlyChart (Figure ''Age Distribution by Gender''),
      PlotlyChart (Figure ''Exercise Frequency vs Stress Level''),
      Header ''Correlation Analysis'',
      PlotlyChart (Heatmap (corr float64 (numeric_cols df) fdf)),
      Dataframe,
      Markdown, Markdown]"

definition body :: "lrow list \<Rightarrow> session \<Rightarrow> ui list" where
  "body df s =
     (let fdf = filtered_df df s
      in sidebar df @ [Header ''Key Metrics''] @ metrics df fdf @ charts df fdf s)"

text \<open>
  The script after the page set-up: \<^verbatim>\<open>df = load_data()\<close>, and \<^verbatim>\<open>st.stop()\<close> when
  it is \<^verbatim>\<open>None\<close>, which ends the run with what has been shown so far.
\<close>

definition dashboard :: "exn + row list \<Rightarrow> session \<Rightarrow> ui list" where
  "dashboard csv s =
     (case load_data csv of
        (shown, None) \<Rightarrow> preamble @ shown
      | (shown, Some df) \<Rightarrow> preamble @ shown @ body df s)"

definition is_metric :: "ui \<Rightarrow> bool" where
  "is_metric u = (case u of Metric l v d \<Rightarrow> True | _ \<Rightarrow> False)"

definition is_chart :: "ui \<Rightarrow> bool" where
  "is_chart u = (case u of PlotlyChart c \<Rightarrow> True | _ \<Rightarrow> False)"


text \<open>A loaded row with given age, gender, platform and score, for concrete evaluations.\<close>

definition example_row :: "int \<Rightarrow> string \<Rightarrow> string \<Rightarrow> real \<Rightarrow> lrow" where
  "example_row a g p h =
     add_age_range \<lparr>Age = a, Gender = g, Social_Media_Platform = p, Daily_Screen_Time = 2,
       Sleep_Quality = 6, Stress_Level = h, Happiness_Index = h, Exercise_Frequency = 3\<rparr>"


section \<open>Age buckets\<close>

lemma age_range_cases:
  "age_range a =
     (if a < 10 then None
      else if a \<le> 20 then Some ''15-20''
      else if a \<le> 25 then Some ''21-25''
      else if a \<le> 30 then Some ''26-30''
      else if a \<le> 35 then Some ''31-35''
      else if a \<le> 40 then Some ''36-40''
      else if a \<le> 50 then Some ''41-50''
      else if a \<le> 100 then Some ''50+''
      else None)"
  by (simp add: age_range_def cut_def bins_def labels_def Let_def)

lemma less_7_cases:
  "i < (7::nat) \<Longrightarrow> i = 0 \<or> i = 1 \<or> i = 2 \<or> i = 3 \<or> i = 4 \<or> i = 5 \<or> i = 6"
  by arith

lemma age_range_bin:
  assumes "i < 7"
  shows "age_range a = Some (labels ! i) \<longleftrightarrow>
           (if i = 0 then bins ! 0 \<le> a else bins ! i < a) \<and> a \<le> bins ! Suc i"
  using less_7_cases [OF assms]
  by (elim disjE) (simp_all add: age_range_cases labels_def bins_def)

text \<open>
  Claim C2. Every age from 10 up to (but not including) 100 gets exactly one of the seven
  labels. Bin \<open>i\<close> holds the ages above edge \<open>i\<close> and up to edge \<open>i + 1\<close>, the first
  bin also holding its lower edge 10. The inner edges 20, 25, 30, 35, 40 and 50 each
  belong to the bin below them.
\<close>

theorem age_range_buckets:
  "(10 \<le> a \<and> a < 100 \<longrightarrow> (\<exists>!l. l \<in> set labels \<and> age_range a = Some l)) \<and>
   (\<forall>i<7. age_range a = Some (labels ! i) \<longleftrightarrow>
            (if i = 0 then bins ! 0 \<le> a else bins ! i < a) \<and> a \<le> bins ! Suc i) \<and>
   age_range 20 = Some ''15-20'' \<and> age_range 25 = Some ''21-25'' \<and>
   age_range 30 = Some ''26-30'' \<and> age_range 35 = Some ''31-35'' \<and>
   age_range 40 = Some ''36-40'' \<and> age_range 50 = Some ''41-50''"
proof -
  have "\<exists>!l. l \<in> set labels \<and> age_range a = Some l" if "10 \<le> a" "a < 100"
  proof -
    have "\<exists>l. l \<in> set labels \<and> age_range a = Some l"
      using that by (simp add: age_range_cases labels_def)
    then show ?thesis by auto
  qed
  moreover have "\<forall>i<7. age_range a = Some (labels ! i) \<longleftrightarrow>
            (if i = 0 then bins ! 0 \<le> a else bins ! i < a) \<and> a \<le> bins ! Suc i"
    using age_range_bin by blast
  moreover have "age_range 20 = Some ''15-20'' \<and> age_range 25 = Some ''21-25'' \<and>
   age_range 30 = Some ''26-30'' \<and> age_range 35 = Some ''31-35'' \<and>
   age_range 40 = Some ''36-40'' \<and> age_range 50 = Some ''41-50''"
    by (simp add: age_range_cases)
  ultimately show ?thesis by blast
qed

theorem age_range_buckets_witness:
  "(10::int) \<le> 33 \<and> (33::int) < 100 \<and> (\<exists>!l. l \<in> set labels \<and> age_range 33 = Some l) \<and>
   (3::nat) < 7 \<and> age_range 33 = Some (labels ! 3) \<and>
   bins ! 3 < (33::int) \<and> (33::int) \<le> bins ! Suc 3"
proof -
  have d: "(10::int) \<le> 33 \<and> (33::int) < 100" by simp
  have b: "bins ! 3 < (33::int) \<and> (33::int) \<le> bins ! Suc 3" by (simp add: bins_def)
  have i: "(3::nat) < 7" by simp
  from age_range_buckets [of 33] d
  have "\<exists>!l. l \<in> set labels \<and> age_range 33 = Some l" by blast
  moreover from age_range_buckets [of 33] i b
  have "age_range 33 = Some (labels ! 3)" by simp
  ultimately show ?thesis using d b by simp
qed

text \<open>
  Claim C9. The ages 10 to 14 get the label \<open>15-20\<close>, as the ages 15 to 20 do: the bin
  with that label is the whole range from 10 to 20, both ends included.
\<close>

theorem first_bucket_covers_10_to_20:
  "(10 \<le> a \<and> a < 15 \<longrightarrow> age_range a = Some ''15-20'') \<and>
   (age_range a = Some ''15-20'' \<longleftrightarrow> 10 \<le> a \<and> a \<le> 20)"
  by (simp add: age_range_cases)

theorem first_bucket_covers_10_to_20_witness:
  "(10::int) \<le> 12 \<and> (12::int) < 15 \<and> age_range 12 = Some ''15-20'' \<and>
   age_range 12 = age_range 17"
proof -
  have "age_range 17 = Some ''15-20''"
    using first_bucket_covers_10_to_20 [of 17] by simp
  moreover have "age_range 12 = Some ''15-20''"
    using first_bucket_covers_10_to_20 [of 12] by simp
  ultimately show ?thesis by simp
qed








section \<open>Filtered view\<close>

lemma set_unique: "set (unique xs) = set xs"
proof (induction xs rule: unique.induct)
  case 1
  then show ?case by simp
next
  case (2 x xs)
  then show ?case by auto
qed

lemma filtered_df_all:
  assumes "set (map Social_Media_Platform df) \<subseteq> set (selected_platform s)"
    and "set (map Age_Range df) \<subseteq> set (selected_age_range s)"
    and "set (map Gender df) \<subseteq> set (selected_gender s)"
  shows "filtered_df df s = df"
  unfolding filtered_df_def isin_def
  using assms by (intro filter_True) auto

text \<open>
  Claim C1. A row is in the Filtered View exactly when it is a row of the table whose
  platform, age bucket and gender are each in the matching selection. When one of the
  three selections is empty the view is empty: nothing falls back to selecting all.
\<close>

theorem filtered_view_is_intersection:
  "(r \<in> set (filtered_df df s) \<longleftrightarrow>
      r \<in> set df \<and> Social_Media_Platform r \<in> set (selected_platform s) \<and>
      Age_Range r \<in> set (selected_age_range s) \<and> Gender r \<in> set (selected_gender s)) \<and>
   (selected_platform s = [] \<or> selected_age_range s = [] \<or> selected_gender s = [] \<longrightarrow>
      filtered_df df s = [])"
  by (auto simp: filtered_df_def isin_def)

theorem filtered_view_is_intersection_witness:
  "filtered_df [example_row 18 ''F'' ''X'' 8]
     \<lparr>selected_platform = [], selected_age_range = [Some ''15-20''],
      selected_gender = [''F'']\<rparr> = [] \<and>
   example_row 18 ''F'' ''X'' 8 \<in> set (filtered_df [example_row 18 ''F'' ''X'' 8]
     \<lparr>selected_platform = [''X''], selected_age_range = [Some ''15-20''],
      selected_gender = [''F'']\<rparr>)"
proof -
  let ?r = "example_row 18 ''F'' ''X'' 8"
  let ?s0 = "\<lparr>selected_platform = [], selected_age_range = [Some ''15-20''],
      selected_gender = [''F'']\<rparr>"
  let ?s1 = "\<lparr>selected_platform = [''X''], selected_age_range = [Some ''15-20''],
      selected_gender = [''F'']\<rparr>"
  have "filtered_df [?r] ?s0 = []"
    using filtered_view_is_intersection [of ?r "[?r]" ?s0] by simp
  moreover have "?r \<in> set (filtered_df [?r] ?s1)"
    using filtered_view_is_intersection [of ?r "[?r]" ?s1]
    by (simp add: example_row_def add_age_range_def age_range_cases)
  ultimately show ?thesis by simp
qed

text \<open>
  Claim C6. The Filtered View never has more rows than the table, and it is the whole
  table when each selection holds every distinct value of its column, as the default
  selections do.
\<close>

theorem filtered_view_size:
  "length (filtered_df df s) \<le> length df \<and>
   (set (selected_platform s) = set (unique (map Social_Media_Platform df)) \<and>
    set (selected_age_range s) = set (unique (map Age_Range df)) \<and>
    set (selected_gender s) = set (unique (map Gender df)) \<longrightarrow> filtered_df df s = df) \<and>
   filtered_df df (default_session df) = df"
proof -
  have "length (filtered_df df s) \<le> length df"
    by (simp add: filtered_df_def)
  moreover have "filtered_df df s = df"
    if "set (selected_platform s) = set (unique (map Social_Media_Platform df))"
      "set (selected_age_range s) = set (unique (map Age_Range df))"
      "set (selected_gender s) = set (unique (map Gender df))"
    using that by (intro filtered_df_all) (simp_all only: set_unique subset_refl)
  moreover have "filtered_df df (default_session df) = df"
    by (intro filtered_df_all) (simp_all add: default_session_def set_unique)
  ultimately show ?thesis by blast
qed

theorem filtered_view_size_witness:
  "filtered_df [example_row 18 ''F'' ''X'' 8, example_row 7 ''M'' ''Y'' 4]
     (default_session [example_row 18 ''F'' ''X'' 8, example_row 7 ''M'' ''Y'' 4])
     = [example_row 18 ''F'' ''X'' 8, example_row 7 ''M'' ''Y'' 4] \<and>
   length (filtered_df [example_row 18 ''F'' ''X'' 8, example_row 7 ''M'' ''Y'' 4]
     \<lparr>selected_platform = [''X''], selected_age_range = [Some ''15-20'', None],
      selected_gender = [''F'', ''M'']\<rparr>) \<le> 2 \<and>
   filtered_df [example_row 18 ''F'' ''X'' 8, example_row 7 ''M'' ''Y'' 4]
     \<lparr>selected_platform = [''Y'', ''X''], selected_age_range = [None, Some ''15-20''],
      selected_gender = [''F'', ''M'']\<rparr>
     = [example_row 18 ''F'' ''X'' 8, example_row 7 ''M'' ''Y'' 4]"
proof -
  let ?df = "[example_row 18 ''F'' ''X'' 8, example_row 7 ''M'' ''Y'' 4]"
  let ?s = "\<lparr>selected_platform = [''X''], selected_age_range = [Some ''15-20'', None],
      selected_gender = [''F'', ''M'']\<rparr>"
  let ?t = "\<lparr>selected_platform = [''Y'', ''X''], selected_age_range = [None, Some ''15-20''],
      selected_gender = [''F'', ''M'']\<rparr>"
  have "filtered_df ?df (default_session ?df) = ?df"
    using filtered_view_size [of ?df ?s] by blast
  moreover have "length (filtered_df ?df ?s) \<le> 2"
    using filtered_view_size [of ?df ?s] by simp
  moreover have "filtered_df ?df ?t = ?df"
    using filtered_view_size [of ?df ?t]
    by (simp add: example_row_def add_age_range_def age_range_cases insert_commute)
  ultimately show ?thesis by blast
qed

section \<open>Loading failures\<close>

lemma no_metric_or_chart_in_preamble:
  "filter (\<lambda>u. is_metric u \<or> is_chart u) preamble = []"
  by (simp add: preamble_def is_metric_def is_chart_def)

lemma dashboard_loaded:
  assumes "age_dtype (map Age raw) \<noteq> Object"
  shows "dashboard (Inr raw) s = preamble @ body (map add_age_range raw) s"
  using assms by (simp add: dashboard_def load_data_def)

lemma dashboard_not_loaded:
  assumes "snd (load_data csv) = None"
  shows "dashboard csv s = preamble @ fst (load_data csv)"
  using assms by (cases "load_data csv") (simp add: dashboard_def)

lemma load_data_errors_only:
  "filter (\<lambda>u. is_metric u \<or> is_chart u) (fst (load_data csv)) = []"
proof (cases csv)
  case (Inl x)
  then show ?thesis
    by (cases x) (simp_all add: load_data_def is_metric_def is_chart_def)
next
  case (Inr raw)
  then show ?thesis
    by (simp add: load_data_def is_metric_def is_chart_def)
qed

text \<open>
  Claim C5. When the file does not exist the run shows the fixed error message and ends
  there; on any other exception of the read it shows an error that ends with the
  exception's own message and ends there. In both cases the page has no metric card and
  no chart. The same holds whenever the loader returns no table, which is also what
  happens when the bucketing raises; a run that loads the table shows four metric cards
  and seven charts.
\<close>

theorem load_failure_halts:
  "dashboard (Inl FileNotFoundError) s = preamble @ [Error file_not_found_msg] \<and>
   dashboard (Inl (OtherException e)) s = preamble @ [Error (''Error loading data: '' @ e)] \<and>
   filter (\<lambda>u. is_metric u \<or> is_chart u) (dashboard (Inl x) s) = [] \<and>
   (age_dtype (map Age raw) = Object \<longrightarrow>
      dashboard (Inr raw) s = preamble @ [Error (''Error loading data: '' @ cut_type_error)]) \<and>
   (snd (load_data csv) = None \<longrightarrow>
      filter (\<lambda>u. is_metric u \<or> is_chart u) (dashboard csv s) = []) \<and>
   (age_dtype (map Age raw) \<noteq> Object \<longrightarrow>
      length (filter is_metric (dashboard (Inr raw) s)) = 4 \<and>
      length (filter is_chart (dashboard (Inr raw) s)) = 7)"
proof -
  have a: "dashboard (Inl FileNotFoundError) s = preamble @ [Error file_not_found_msg]"
    by (simp add: dashboard_def load_data_def)
  have b: "dashboard (Inl (OtherException e')) s =
      preamble @ [Error (''Error loading data: '' @ e')]" for e'
    by (simp add: dashboard_def load_data_def)
  have n: "filter (\<lambda>u. is_metric u \<or> is_chart u) (dashboard csv' s) = []"
    if "snd (load_data csv') = None" for csv'
    using that
    by (simp add: dashboard_not_loaded no_metric_or_chart_in_preamble load_data_errors_only)
  have "snd (load_data (Inl x)) = None"
    by (cases x) (simp_all add: load_data_def)
  then have c: "filter (\<lambda>u. is_metric u \<or> is_chart u) (dashboard (Inl x) s) = []"
    by (rule n)
  have r: "dashboard (Inr raw) s =
      preamble @ [Error (''Error loading data: '' @ cut_type_error)]"
    if "age_dtype (map Age raw) = Object"
    using that by (simp add: dashboard_def load_data_def)
  have d: "length (filter is_metric (dashboard (Inr raw) s)) = 4"
    if "age_dtype (map Age raw) \<noteq> Object"
    using that
    by (simp add: dashboard_loaded body_def Let_def preamble_def sidebar_def
        metrics_def charts_def is_metric_def)
  have e: "length (filter is_chart (dashboard (Inr raw) s)) = 7"
    if "age_dtype (map Age raw) \<noteq> Object"
    using that
    by (simp add: dashboard_loaded body_def Let_def preamble_def sidebar_def
        metrics_def charts_def is_chart_def)
  from a b c r n d e show ?thesis by blast
qed

theorem load_failure_halts_witness:
  "age_dtype (map Age [\<lparr>Age = 18446744073709551616, Gender = ''F'',
       Social_Media_Platform = ''X'', Daily_Screen_Time = 2, Sleep_Quality = 5,
       Stress_Level = 5, Happiness_Index = 5, Exercise_Frequency = 1\<rparr>]) = Object \<and>
   dashboard (Inr [\<lparr>Age = 18446744073709551616, Gender = ''F'',
       Social_Media_Platform = ''X'', Daily_Screen_Time = 2, Sleep_Quality = 5,
       Stress_Level = 5, Happiness_Index = 5, Exercise_Frequency = 1\<rparr>])
     \<lparr>selected_platform = [''X''], selected_age_range = [None], selected_gender = [''F'']\<rparr> =
     preamble @ [Error (''Error loading data: '' @ cut_type_error)] \<and>
   snd (load_data (Inl FileNotFoundError)) = None \<and>
   filter (\<lambda>u. is_metric u \<or> is_chart u) (dashboard (Inl FileNotFoundError)
     \<lparr>selected_platform = [''X''], selected_age_range = [None], selected_gender = [''F'']\<rparr>)
     = [] \<and>
   age_dtype (map Age [\<lparr>Age = 18, Gender = ''F'', Social_Media_Platform = ''X'',
       Daily_Screen_Time = 2, Sleep_Quality = 5, Stress_Level = 5, Happiness_Index = 5,
       Exercise_Frequency = 1\<rparr>]) \<noteq> Object \<and>
   length (filter is_metric (dashboard (Inr [\<lparr>Age = 18, Gender = ''F'',
       Social_Media_Platform = ''X'', Daily_Screen_Time = 2, Sleep_Quality = 5,
       Stress_Level = 5, Happiness_Index = 5, Exercise_Frequency = 1\<rparr>])
     \<lparr>selected_platform = [''X''], selected_age_range = [None], selected_gender = [''F'']\<rparr>))
     = 4"
proof -
  let ?big = "\<lparr>Age = 18446744073709551616, Gender = ''F'',
       Social_Media_Platform = ''X'', Daily_Screen_Time = 2, Sleep_Quality = 5,
       Stress_Level = 5, Happiness_Index = 5, Exercise_Frequency = 1\<rparr>"
  let ?ok = "\<lparr>Age = 18, Gender = ''F'', Social_Media_Platform = ''X'',
       Daily_Screen_Time = 2, Sleep_Quality = 5, Stress_Level = 5, Happiness_Index = 5,
       Exercise_Frequency = 1\<rparr>"
  let ?s = "\<lparr>selected_platform = [''X''], selected_age_range = [None],
       selected_gender = [''F'']\<rparr>"
  have o: "age_dtype (map Age [?big]) = Object"
    by (simp add: age_dtype_def fits_int64_def fits_uint64_def)
  have i: "age_dtype (map Age [?ok]) \<noteq> Object"
    by (simp add: age_dtype_def fits_int64_def)
  have f: "snd (load_data (Inl FileNotFoundError)) = None"
    by (simp add: load_data_def)
  have "dashboard (Inr [?big]) ?s = preamble @ [Error (''Error loading data: '' @ cut_type_error)]"
    using load_failure_halts [of ?s _ _ "[?big]"] o by blast
  moreover have "filter (\<lambda>u. is_metric u \<or> is_chart u) (dashboard (Inl FileNotFoundError) ?s) = []"
    using load_failure_halts [of ?s _ _ _ "Inl FileNotFoundError"] f by blast
  moreover have "length (filter is_metric (dashboard (Inr [?ok]) ?s)) = 4"
    using load_failure_halts [of ?s _ _ "[?ok]"] i by blast
  ultimately show ?thesis using o i f by blast
qed

section \<open>Metrics\<close>

text \<open>
  Claim C3. The stress delta is the mean over the whole table minus the mean over the
  Filtered View; the happiness, screen-time and exercise deltas are the mean over the
  Filtered View minus the mean over the whole table. With both tables non-empty these
  are differences of the arithmetic means.
\<close>

theorem metric_delta_signs:
  "metrics df fdf =
     [Metric ''Average Happiness'' (mean (map Happiness_Index fdf))
        (fsub (mean (map Happiness_Index fdf)) (mean (map Happiness_Index df))),
      Metric ''Average Stress Level'' (mean (map Stress_Level fdf))
        (fsub (mean (map Stress_Level df)) (mean (map Stress_Level fdf))),
      Metric ''Avg Screen Time (hrs)'' (mean (map Daily_Screen_Time fdf))
        (fsub (mean (map Daily_Screen_Time fdf)) (mean (map Daily_Screen_Time df))),
      Metric ''Avg Exercise (weekly)'' (mean (map Exercise_Frequency fdf))
        (fsub (mean (map Exercise_Frequency fdf)) (mean (map Exercise_Frequency df)))] \<and>
   (df \<noteq> [] \<and> fdf \<noteq> [] \<longrightarrow>
      stress_delta df fdf =
        Fin (sum_list (map Stress_Level df) / real (length df) -
             sum_list (map Stress_Level fdf) / real (length fdf)) \<and>
      happiness_delta df fdf =
        Fin (sum_list (map Happiness_Index fdf) / real (length fdf) -
             sum_list (map Happiness_Index df) / real (length df)) \<and>
      screen_time_delta df fdf =
        Fin (sum_list (map Daily_Screen_Time fdf) / real (length fdf) -
             sum_list (map Daily_Screen_Time df) / real (length df)) \<and>
      exercise_delta df fdf =
        Fin (sum_list (map Exercise_Frequency fdf) / real (length fdf) -
             sum_list (map Exercise_Frequency df) / real (length df)))"
  by (simp add: metrics_def stress_delta_def happiness_delta_def screen_time_delta_def
      exercise_delta_def mean_def)

theorem metric_delta_signs_witness:
  "[example_row 18 ''F'' ''X'' 8, example_row 33 ''M'' ''Y'' 4] \<noteq> [] \<and>
   [example_row 18 ''F'' ''X'' 8] \<noteq> [] \<and>
   stress_delta [example_row 18 ''F'' ''X'' 8, example_row 33 ''M'' ''Y'' 4]
     [example_row 18 ''F'' ''X'' 8] = Fin (- 2) \<and>
   happiness_delta [example_row 18 ''F'' ''X'' 8, example_row 33 ''M'' ''Y'' 4]
     [example_row 18 ''F'' ''X'' 8] = Fin 2"
proof -
  let ?df = "[example_row 18 ''F'' ''X'' 8, example_row 33 ''M'' ''Y'' 4]"
  let ?fdf = "[example_row 18 ''F'' ''X'' 8]"
  have ne: "?df \<noteq> [] \<and> ?fdf \<noteq> []" by simp
  have "stress_delta ?df ?fdf = Fin (- 2)"
    using metric_delta_signs [of ?df ?fdf] ne
    by (simp add: example_row_def add_age_range_def)
  moreover have "happiness_delta ?df ?fdf = Fin 2"
    using metric_delta_signs [of ?df ?fdf] ne
    by (simp add: example_row_def add_age_range_def)
  ultimately show ?thesis by simp
qed

text \<open>
  Claim C4. When the Filtered View is empty, as it is when no platform is selected, each
  of the four means is the not-a-number value, and so is each delta; the run of a loaded
  table still shows the four metric cards instead of ending in an exception.
\<close>

theorem empty_view_metrics_are_nan:
  "(filtered_df df s = [] \<longrightarrow>
      metrics df (filtered_df df s) =
        [Metric ''Average Happiness'' NaN NaN, Metric ''Average Stress Level'' NaN NaN,
         Metric ''Avg Screen Time (hrs)'' NaN NaN, Metric ''Avg Exercise (weekly)'' NaN NaN]) \<and>
   (selected_platform s = [] \<and> age_dtype (map Age raw) \<noteq> Object \<longrightarrow>
      filter is_metric (dashboard (Inr raw) s) =
        [Metric ''Average Happiness'' NaN NaN, Metric ''Average Stress Level'' NaN NaN,
         Metric ''Avg Screen Time (hrs)'' NaN NaN, Metric ''Avg Exercise (weekly)'' NaN NaN])"
proof -
  have m: "metrics df' [] =
        [Metric ''Average Happiness'' NaN NaN, Metric ''Average Stress Level'' NaN NaN,
         Metric ''Avg Screen Time (hrs)'' NaN NaN, Metric ''Avg Exercise (weekly)'' NaN NaN]"
    for df'
    by (simp add: metrics_def stress_delta_def happiness_delta_def screen_time_delta_def
        exercise_delta_def mean_def)
  have f: "filtered_df df' s = []" if "selected_platform s = []" for df'
    using that by (simp add: filtered_df_def isin_def)
  have d: "filter is_metric (dashboard (Inr raw) s) =
      metrics (map add_age_range raw) (filtered_df (map add_age_range raw) s)"
    if "age_dtype (map Age raw) \<noteq> Object"
    using that
    by (simp add: dashboard_loaded body_def Let_def preamble_def sidebar_def
        metrics_def charts_def is_metric_def)
  show ?thesis using m f d by simp
qed

theorem empty_view_metrics_are_nan_witness:
  "selected_platform \<lparr>selected_platform = [], selected_age_range = [Some ''15-20''],
      selected_gender = [''F'']\<rparr> = [] \<and>
   age_dtype (map Age [\<lparr>Age = 18, Gender = ''F'', Social_Media_Platform = ''X'',
       Daily_Screen_Time = 2, Sleep_Quality = 6, Stress_Level = 3, Happiness_Index = 8,
       Exercise_Frequency = 3\<rparr>]) \<noteq> Object \<and>
   filter is_metric (dashboard (Inr [\<lparr>Age = 18, Gender = ''F'', Social_Media_Platform = ''X'',
       Daily_Screen_Time = 2, Sleep_Quality = 6, Stress_Level = 3, Happiness_Index = 8,
       Exercise_Frequency = 3\<rparr>])
     \<lparr>selected_platform = [], selected_age_range = [Some ''15-20''],
      selected_gender = [''F'']\<rparr>) =
     [Metric ''Average Happiness'' NaN NaN, Metric ''Average Stress Level'' NaN NaN,
      Metric ''Avg Screen Time (hrs)'' NaN NaN, Metric ''Avg Exercise (weekly)'' NaN NaN]"
proof -
  let ?s = "\<lparr>selected_platform = [], selected_age_range = [Some ''15-20''],
      selected_gender = [''F'']\<rparr>"
  let ?r = "\<lparr>Age = 18, Gender = ''F'', Social_Media_Platform = ''X'',
       Daily_Screen_Time = 2, Sleep_Quality = 6, Stress_Level = 3, Happiness_Index = 8,
       Exercise_Frequency = 3\<rparr>"
  have e: "selected_platform ?s = []" by simp
  have i: "age_dtype (map Age [?r]) \<noteq> Object"
    by (simp add: age_dtype_def fits_int64_def)
  show ?thesis
    using empty_view_metrics_are_nan [of _ ?s "[?r]"] e i by blast
qed

section \<open>Radar chart\<close>

text \<open>
  Claim C8. The radar chart has one trace per selected platform, in the order of the
  selection. Its values are the means of sleep quality, stress, happiness and exercise
  frequency over the rows of the Filtered View with that platform, followed by the first
  of them again: five values, the last equal to the first.
\<close>

theorem radar_polygon_is_closed:
  "fig_radar (filtered_df df s) s =
     Radar (map (\<lambda>p.
       (p,
        [mean (map Sleep_Quality (filter (\<lambda>r. Social_Media_Platform r = p) (filtered_df df s))),
         mean (map Stress_Level (filter (\<lambda>r. Social_Media_Platform r = p) (filtered_df df s))),
         mean (map Happiness_Index (filter (\<lambda>r. Social_Media_Platform r = p) (filtered_df df s))),
         mean (map Exercise_Frequency
           (filter (\<lambda>r. Social_Media_Platform r = p) (filtered_df df s))),
         mean (map Sleep_Quality (filter (\<lambda>r. Social_Media_Platform r = p) (filtered_df df s)))],
        [''Sleep_Quality(1-10)'', ''Stress_Level(1-10)'', ''Happiness_Index(1-10)'',
         ''Exercise_Frequency(week)'', ''Sleep_Quality(1-10)''])) (selected_platform s)) \<and>
   length (radar_values (filtered_df df s) p) = 5 \<and>
   last (radar_values (filtered_df df s) p) = hd (radar_values (filtered_df df s) p)"
  by (simp add: fig_radar_def radar_trace_def radar_values_def categories_def Let_def)

theorem radar_polygon_is_closed_witness:
  "radar_values (filtered_df [example_row 18 ''F'' ''X'' 8, example_row 33 ''M'' ''X'' 4]
       (default_session [example_row 18 ''F'' ''X'' 8, example_row 33 ''M'' ''X'' 4])) ''X''
     = [Fin 6, Fin 6, Fin 6, Fin 3, Fin 6] \<and>
   length (radar_values (filtered_df [example_row 18 ''F'' ''X'' 8, example_row 33 ''M'' ''X'' 4]
       (default_session [example_row 18 ''F'' ''X'' 8, example_row 33 ''M'' ''X'' 4])) ''X'') = 5"
proof -
  let ?df = "[example_row 18 ''F'' ''X'' 8, example_row 33 ''M'' ''X'' 4]"
  have "filtered_df ?df (default_session ?df) = ?df"
    by (simp add: filtered_df_def default_session_def isin_def)
  then have "radar_values (filtered_df ?df (default_session ?df)) ''X''
      = [Fin 6, Fin 6, Fin 6, Fin 3, Fin 6]"
    by (simp add: radar_values_def categories_def Let_def mean_def example_row_def
        add_age_range_def)
  moreover have "length (radar_values (filtered_df ?df (default_session ?df)) ''X'') = 5"
    using radar_polygon_is_closed [of ?df "default_session ?df" "''X''"] by blast
  ultimately show ?thesis by blast
qed

section \<open>Rounding to double precision\<close>

lemma round_half_even_eqI:
  assumes "\<bar>y - of_int m\<bar> < 1 / 2"
  shows "round_half_even y = m"
proof (cases "of_int m \<le> y")
  case True
  with assms have "\<lfloor>y\<rfloor> = m" by (intro floor_unique) (simp_all add: abs_less_iff)
  with assms True show ?thesis by (simp add: round_half_even_def Let_def abs_less_iff)
next
  case False
  with assms have "\<lfloor>y\<rfloor> = m - 1" by (intro floor_unique) (simp_all add: abs_less_iff)
  with assms False show ?thesis by (simp add: round_half_even_def Let_def abs_less_iff)
qed

lemma float64_eqI:
  assumes "2 powr of_int e \<le> \<bar>x\<bar>" "\<bar>x\<bar> < 2 powr of_int (e + 1)" "- 1022 \<le> e"
    and "\<bar>x / 2 powr of_int (e - 52) - of_int m\<bar> < 1 / 2"
  shows "float64 x = of_int m * 2 powr of_int (e - 52)"
proof -
  have "0 < (2::real) powr of_int e" by simp
  with assms(1) have pos: "0 < \<bar>x\<bar>" by linarith
  then have x0: "x \<noteq> 0" by simp
  have "\<lfloor>log 2 \<bar>x\<bar>\<rfloor> = e"
    using pos assms(1,2) by (simp add: floor_log_eq_powr_iff)
  with assms(3) have q: "quantum x = 2 powr of_int (e - 52)"
    by (simp add: quantum_def max_def)
  from assms(4) have "round_half_even (x / quantum x) = m"
    unfolding q by (rule round_half_even_eqI)
  with x0 q show ?thesis by (simp add: float64_def)
qed



lemma float64_third: "float64 (1 / 3) = 6004799503160661 / 18014398509481984"
  using float64_eqI [of "- 2" "1 / 3" 6004799503160661] by (simp add: powr_minus)




section \<open>Correlation matrix\<close>






subsection \<open>A constant column\<close>







subsection \<open>The diagonal\<close>





subsection \<open>Exact arithmetic\<close>












subsection \<open>A view computed in double precision\<close>





subsection \<open>The loop on a table\<close>












end
